theory Spec2Isabelle
  imports Complex_Main "HOL-Library.Word"
begin

unbundle bit_operations_syntax

section \<open>Single-precision floating point\<close>

text \<open>
  The program computes with C++ \<^verbatim>\<open>float\<close>. A value is modelled by its 32 bits in the
  IEEE-754 binary32 interchange format (1 sign bit, 8 exponent bits, 23 fraction bits),
  and the arithmetic operators by the exact result rounded to nearest, ties to even.
  Each operator of the source rounds once, to single precision: \<^verbatim>\<open>a - b * c\<close> is a
  rounded product followed by a rounded difference, not a fused multiply-add.
  Every 32-bit pattern is a float, so a statement about all \<open>float\<close> covers the signed
  zeros, the subnormals, both infinities and every NaN.
\<close>

type_synonym float = "32 word"
type_synonym int32 = "32 word"
type_synonym uint32 = "32 word"
type_synonym uint16 = "16 word"

definition f32_sign :: "float \<Rightarrow> bool" where
  "f32_sign x = bit x 31"

definition f32_exponent :: "float \<Rightarrow> nat" where
  "f32_exponent x = unat (take_bit 8 (drop_bit 23 x))"

definition f32_fraction :: "float \<Rightarrow> nat" where
  "f32_fraction x = unat (take_bit 23 x)"

definition isnan :: "float \<Rightarrow> bool" where
  "isnan x = (f32_exponent x = 255 \<and> f32_fraction x \<noteq> 0)"

definition isinf :: "float \<Rightarrow> bool" where
  "isinf x = (f32_exponent x = 255 \<and> f32_fraction x = 0)"

definition pow2 :: "int \<Rightarrow> real" where
  "pow2 e = (if 0 \<le> e then 2 ^ nat e else 1 / 2 ^ nat (- e))"

text \<open>
  The magnitude of a pattern. For an infinity the formula gives \<open>2 ^ 128\<close>, above every
  finite float, so that comparing values orders the infinities correctly; the value of
  a NaN is never used.
\<close>

definition f32_magnitude :: "float \<Rightarrow> real" where
  "f32_magnitude x =
     (if f32_exponent x = 0 then of_nat (f32_fraction x) * pow2 (- 149)
      else of_nat (2 ^ 23 + f32_fraction x) * pow2 (int (f32_exponent x) - 150))"

definition f32_value :: "float \<Rightarrow> real" where
  "f32_value x = (if f32_sign x then - f32_magnitude x else f32_magnitude x)"

definition f32_pinf :: float where "f32_pinf = 0x7F800000"
definition f32_qnan :: float where "f32_qnan = 0x7FC00000"
definition f32_signbit :: "bool \<Rightarrow> float" where
  "f32_signbit s = (if s then 0x80000000 else 0)"

text \<open>
  \<open>binade q n\<close> searches the exponents \<open>n - 126, \<dots>, - 126\<close> downwards for the first \<open>e\<close>
  with \<open>2 ^ e \<le> q\<close>; below \<open>2 ^ - 126\<close> the subnormals share the exponent \<open>- 126\<close>.
\<close>

primrec binade :: "real \<Rightarrow> nat \<Rightarrow> int" where
  "binade q 0 = - 126"
| "binade q (Suc n) = (if pow2 (int n - 125) \<le> q then int n - 125 else binade q n)"

text \<open>
  Rounding a magnitude \<open>q \<ge> 0\<close> with sign \<open>s\<close>: \<open>k\<close> counts units in the last place of
  the binade of \<open>q\<close>, a remainder above one half rounds up and a tie goes to the even
  neighbour. Exponent and count are packed as the format stores them, so a count of
  \<open>2 ^ 24\<close> carries into the next exponent, and whatever reaches the exponent field 255
  is the infinity.
\<close>

definition f32_round :: "bool \<Rightarrow> real \<Rightarrow> float" where
  "f32_round s q =
     (let e = binade q 254;
          n = q / pow2 (e - 23);
          k = \<lfloor>n\<rfloor>;
          r = n - of_int k;
          k' = (if 1 / 2 < r \<or> (r = 1 / 2 \<and> odd k) then k + 1 else k);
          bits = min ((e + 126) * 2 ^ 23 + k') 0x7F800000
      in f32_signbit s OR word_of_int bits)"

text \<open>A decimal literal such as \<^verbatim>\<open>0.99f\<close> is the float nearest to the number written.\<close>

definition f32_literal :: "real \<Rightarrow> float" where
  "f32_literal q = f32_round (q < 0) \<bar>q\<bar>"

text \<open>Unary minus flips the sign bit.\<close>

definition f32_neg :: "float \<Rightarrow> float" where
  "f32_neg x = x XOR 0x80000000"

text \<open>
  The four operators. A NaN operand or an invalid operation gives a quiet NaN (which
  of the NaN patterns is left open by the standard; no statement below depends on it).
  An exact sum of zero is \<open>- 0\<close> only when both operands are negative.
\<close>

definition f32_add :: "float \<Rightarrow> float \<Rightarrow> float" where
  "f32_add x y =
     (if isnan x \<or> isnan y then f32_qnan
      else if isinf x \<and> isinf y \<and> f32_sign x \<noteq> f32_sign y then f32_qnan
      else if isinf x then x
      else if isinf y then y
      else let v = f32_value x + f32_value y
           in if v = 0 then f32_signbit (f32_sign x \<and> f32_sign y)
              else f32_round (v < 0) \<bar>v\<bar>)"

definition f32_sub :: "float \<Rightarrow> float \<Rightarrow> float" where
  "f32_sub x y = f32_add x (f32_neg y)"

definition f32_mul :: "float \<Rightarrow> float \<Rightarrow> float" where
  "f32_mul x y =
     (let s = (f32_sign x \<noteq> f32_sign y)
      in if isnan x \<or> isnan y then f32_qnan
         else if (isinf x \<and> f32_value y = 0) \<or> (isinf y \<and> f32_value x = 0) then f32_qnan
         else if isinf x \<or> isinf y then f32_signbit s OR f32_pinf
         else f32_round s (f32_magnitude x * f32_magnitude y))"

definition f32_div :: "float \<Rightarrow> float \<Rightarrow> float" where
  "f32_div x y =
     (let s = (f32_sign x \<noteq> f32_sign y)
      in if isnan x \<or> isnan y then f32_qnan
         else if isinf x \<and> isinf y then f32_qnan
         else if f32_value x = 0 \<and> f32_value y = 0 then f32_qnan
         else if isinf x then f32_signbit s OR f32_pinf
         else if isinf y then f32_signbit s
         else if f32_value y = 0 then f32_signbit s OR f32_pinf
         else f32_round s (f32_magnitude x / f32_magnitude y))"

text \<open>Comparisons: every comparison with a NaN is false; \<open>- 0\<close> and \<open>+ 0\<close> are equal.\<close>

definition f32_lt :: "float \<Rightarrow> float \<Rightarrow> bool" where
  "f32_lt x y = (\<not> isnan x \<and> \<not> isnan y \<and> f32_value x < f32_value y)"

definition f32_gt :: "float \<Rightarrow> float \<Rightarrow> bool" where
  "f32_gt x y = (\<not> isnan x \<and> \<not> isnan y \<and> f32_value y < f32_value x)"

definition f32_le :: "float \<Rightarrow> float \<Rightarrow> bool" where
  "f32_le x y = (\<not> isnan x \<and> \<not> isnan y \<and> f32_value x \<le> f32_value y)"

definition f32_eq :: "float \<Rightarrow> float \<Rightarrow> bool" where
  "f32_eq x y = (\<not> isnan x \<and> \<not> isnan y \<and> f32_value x = f32_value y)"

section \<open>Messages, configuration and shared variables\<close>

record TimeStamp =
  seconds :: int32
  microseconds :: int32

record GroundMotionRequest =
  vx :: float
  yawRate :: float

record SwitchStateRequest =
  state :: int32

record PedalPositionRequest =
  position :: float

text \<open>
  An envelope as the handlers and \<^verbatim>\<open>od4.send\<close> use it: the sender stamp, the sample
  time stamp and the message it carries (\<^verbatim>\<open>cluon::extractMessage\<close> returns the latter).
\<close>

record 'm Envelope =
  sampleTimeStamp :: TimeStamp
  senderStamp :: uint32
  message :: 'm

definition extractMessage :: "'m Envelope \<Rightarrow> 'm" where
  "extractMessage envelope = message envelope"

text \<open>The constants \<^verbatim>\<open>main\<close> reads from the command line and the lambdas capture.\<close>

record config =
  senderStampInput :: uint32
  senderStampLeft :: uint32
  senderStampRight :: uint32
  verbose :: bool
  trackWidth :: float
  speedMax :: float

text \<open>
  The variables shared by the lambdas. The mutexes make each handler's writes and the
  emitter's reads atomic, so a handler is one step on this record.
\<close>

record vars =
  vxRequest :: float
  yawRateRequest :: float
  state :: int32

text \<open>The lines written to standard output when \<^verbatim>\<open>--verbose\<close> is given.\<close>

datatype line =
    GotRequest float float
  | GotSwitchState int32
  | SuppressingOutput
  | SendingPedalRequests float float float float float

section \<open>The inbound handlers\<close>

definition onGroundMotionRequest ::
  "config \<Rightarrow> GroundMotionRequest Envelope \<Rightarrow> vars \<Rightarrow> vars \<times> line list" where
  "onGroundMotionRequest c envelope s =
     (if senderStamp envelope = senderStampInput c then
        let msg = extractMessage envelope;
            s' = s\<lparr>vxRequest := vx msg, yawRateRequest := yawRate msg\<rparr>
        in (s', if verbose c then [GotRequest (vx msg) (yawRate msg)] else [])
      else (s, []))"

definition onSwitchStateRequest ::
  "config \<Rightarrow> SwitchStateRequest Envelope \<Rightarrow> vars \<Rightarrow> vars \<times> line list" where
  "onSwitchStateRequest c envelope s =
     (if senderStamp envelope = 99 then
        let msg = extractMessage envelope;
            s' = s\<lparr>state := SwitchStateRequest.state msg\<rparr>
        in (s', if verbose c then [GotSwitchState (vars.state s')] else [])
      else (s, []))"

section \<open>The periodic emitter\<close>

text \<open>
  One call of \<^verbatim>\<open>atFrequency\<close>: the envelopes handed to \<^verbatim>\<open>od4.send\<close> in order, the lines
  printed, and the value returned to the time trigger. \<open>now\<close> is what
  \<^verbatim>\<open>cluon::time::now()\<close> returns at its single call.
\<close>

record tick =
  sent :: "PedalPositionRequest Envelope list"
  printed :: "line list"
  returned :: bool

definition atFrequency :: "config \<Rightarrow> TimeStamp \<Rightarrow> vars \<Rightarrow> tick" where
  "atFrequency c now s =
     (if vars.state s = 1 then
        \<lparr>sent = [], printed = (if verbose c then [SuppressingOutput] else []), returned = True\<rparr>
      else
        let vl = f32_sub (vxRequest s) (f32_mul (yawRateRequest s) (trackWidth c));
            vr = f32_add (vxRequest s) (f32_mul (yawRateRequest s) (trackWidth c));
            ts = now;
            pedalPositionLeft = f32_div vl (speedMax c);
            pedalPositionLeft = (if f32_gt pedalPositionLeft (f32_literal 1)
                                 then f32_literal (99 / 100) else pedalPositionLeft);
            pedalPositionLeft = (if f32_lt pedalPositionLeft (f32_neg (f32_literal 1))
                                 then f32_neg (f32_literal (99 / 100)) else pedalPositionLeft);
            pedalPositionRequestLeft = \<lparr>position = pedalPositionLeft\<rparr>;
            pedalPositionRight = f32_div vr (speedMax c);
            pedalPositionRight = (if f32_gt pedalPositionRight (f32_literal 1)
                                  then f32_literal (99 / 100) else pedalPositionRight);
            pedalPositionRight = (if f32_lt pedalPositionRight (f32_neg (f32_literal 1))
                                  then f32_neg (f32_literal (99 / 100)) else pedalPositionRight);
            pedalPositionRequestRight = \<lparr>position = pedalPositionRight\<rparr>
        in \<lparr>sent =
              [\<lparr>sampleTimeStamp = ts, senderStamp = senderStampLeft c,
                message = pedalPositionRequestLeft\<rparr>,
               \<lparr>sampleTimeStamp = ts, senderStamp = senderStampRight c,
                message = pedalPositionRequestRight\<rparr>],
            printed =
              (if verbose c
               then [SendingPedalRequests pedalPositionLeft pedalPositionRight vl vr (speedMax c)]
               else []),
            returned = True\<rparr>)"

definition positions :: "tick \<Rightarrow> float list" where
  "positions t = map (\<lambda>envelope. position (message envelope)) (sent t)"

text \<open>The variables as \<^verbatim>\<open>main\<close> declares them: both requests start at \<^verbatim>\<open>0.0f\<close>, and
  \<^verbatim>\<open>int32_t state;\<close> has no initialiser, so its first value is whatever it happens to be.\<close>

definition initial_vars :: "int32 \<Rightarrow> vars" where
  "initial_vars indeterminate =
     \<lparr>vxRequest = f32_literal 0, yawRateRequest = f32_literal 0, state = indeterminate\<rparr>"

section \<open>The specification's two pure functions\<close>

text \<open>Written from the specification's sections 4.1 and 4.2, to compare the emitter with.\<close>

definition spec_transform :: "float \<Rightarrow> float \<Rightarrow> float \<Rightarrow> float \<times> float" where
  "spec_transform forwardVelocity yaw trackWidthHalf =
     (f32_sub forwardVelocity (f32_mul yaw trackWidthHalf),
      f32_add forwardVelocity (f32_mul yaw trackWidthHalf))"

definition spec_saturate :: "float \<Rightarrow> float \<Rightarrow> float" where
  "spec_saturate wheelSpeed maxSpeed =
     (let p = f32_div wheelSpeed maxSpeed
      in if f32_gt p (f32_literal 1) then f32_literal (99 / 100)
         else if f32_lt p (f32_neg (f32_literal 1)) then f32_neg (f32_literal (99 / 100))
         else p)"

section \<open>Start-up\<close>

text \<open>
  \<^verbatim>\<open>std::stoi\<close> and \<^verbatim>\<open>std::stof\<close> return a number or throw one of two exceptions.
  \<^verbatim>\<open>main\<close> catches nothing, so a throw ends the process through \<^verbatim>\<open>std::terminate\<close>.
\<close>

datatype exception = invalid_argument | out_of_range

text \<open>
  How \<^verbatim>\<open>main\<close> ends up: the usage text on standard error and \<^verbatim>\<open>retCode\<close> still 1; an
  exception nobody catches; or the session opened on the CID, the motion handler
  registered as data trigger and \<^verbatim>\<open>atFrequency\<close> run by the time trigger at the given
  frequency over the configuration, after which \<^verbatim>\<open>retCode\<close> is 0.
\<close>

datatype outcome =
    UsageExit
  | Uncaught exception
  | Served uint16 config int32

definition retCode :: "outcome \<Rightarrow> int32 option" where
  "retCode r = (case r of UsageExit \<Rightarrow> Some 1 | Uncaught e \<Rightarrow> None | Served cid c freq \<Rightarrow> Some 0)"

text \<open>\<^verbatim>\<open>std::map::count\<close> and \<^verbatim>\<open>operator[]\<close> on the parsed command line.\<close>

definition count :: "(string \<rightharpoonup> string) \<Rightarrow> string \<Rightarrow> nat" where
  "count m k = (case m k of None \<Rightarrow> 0 | Some v \<Rightarrow> 1)"

definition subscript :: "(string \<rightharpoonup> string) \<Rightarrow> string \<Rightarrow> string" where
  "subscript m k = (case m k of None \<Rightarrow> [] | Some v \<Rightarrow> v)"

text \<open>
  \<^verbatim>\<open>main\<close>, over the map that \<^verbatim>\<open>cluon::getCommandlineArguments\<close> returns. The two
  library parsers are parameters; the conversions run in the order of the source, so
  the first throw is the one that ends the process.
\<close>

definition proceed :: "exception + 'a \<Rightarrow> ('a \<Rightarrow> outcome) \<Rightarrow> outcome" where
  "proceed r continue = (case r of Inl e \<Rightarrow> Uncaught e | Inr v \<Rightarrow> continue v)"

definition main ::
  "(string \<Rightarrow> exception + int32) \<Rightarrow> (string \<Rightarrow> exception + float) \<Rightarrow>
   (string \<rightharpoonup> string) \<Rightarrow> outcome" where
  "main stoi stof commandlineArguments =
     (if 0 = count commandlineArguments ''cid'' \<or>
         0 = count commandlineArguments ''freq'' \<or>
         0 = count commandlineArguments ''speed-max'' \<or>
         0 = count commandlineArguments ''track-width''
      then UsageExit
      else
        proceed (if count commandlineArguments ''id-input'' \<noteq> 0
             then stoi (subscript commandlineArguments ''id-input'') else Inr 0) (\<lambda>idInput.
        proceed (if count commandlineArguments ''id-left'' \<noteq> 0
             then stoi (subscript commandlineArguments ''id-left'') else Inr 0) (\<lambda>idLeft.
        proceed (if count commandlineArguments ''id-right'' \<noteq> 0
             then stoi (subscript commandlineArguments ''id-right'') else Inr 1) (\<lambda>idRight.
        proceed (stof (subscript commandlineArguments ''track-width'')) (\<lambda>width.
        proceed (stof (subscript commandlineArguments ''speed-max'')) (\<lambda>speed.
        proceed (stoi (subscript commandlineArguments ''cid'')) (\<lambda>cid.
        proceed (stoi (subscript commandlineArguments ''freq'')) (\<lambda>freq.
          Served (ucast cid)
            \<lparr>senderStampInput = idInput, senderStampLeft = idLeft,
             senderStampRight = idRight,
             verbose = (count commandlineArguments ''verbose'' \<noteq> 0),
             trackWidth = width, speedMax = speed\<rparr>
            freq))))))))"

subsection \<open>The library parsers\<close>

text \<open>
  Modelled from the C and C++ standards, not from this repository: \<^verbatim>\<open>std::stoi\<close> is
  \<^verbatim>\<open>strtol\<close> in base 10 with a range check, \<^verbatim>\<open>std::stof\<close> is \<^verbatim>\<open>strtof\<close>, both in the
  "C" locale (the program never sets another). They skip white space, read an optional
  sign and the longest prefix that is a number, throw \<^verbatim>\<open>invalid_argument\<close> when there is
  none and \<^verbatim>\<open>out_of_range\<close> when the library reports a range error.
\<close>

definition isspace :: "char \<Rightarrow> bool" where
  "isspace c = (c \<in> set [CHR '' '', CHR 0x09, CHR 0x0A, CHR 0x0B, CHR 0x0C, CHR 0x0D])"

definition isdigit :: "char \<Rightarrow> bool" where
  "isdigit c = (c \<in> set ''0123456789'')"

definition isxdigit :: "char \<Rightarrow> bool" where
  "isxdigit c = (c \<in> set ''0123456789abcdefABCDEF'')"

definition tolower :: "char \<Rightarrow> char" where
  "tolower c =
     (case map_of (zip ''ABCDEFGHIJKLMNOPQRSTUVWXYZ'' ''abcdefghijklmnopqrstuvwxyz'') c of
        None \<Rightarrow> c
      | Some l \<Rightarrow> l)"

definition digit :: "char \<Rightarrow> nat" where
  "digit c = (if isdigit c then of_char c - 48 else of_char (tolower c) - 87)"

definition numeral_value :: "nat \<Rightarrow> string \<Rightarrow> nat" where
  "numeral_value base ds = foldl (\<lambda>a c. base * a + digit c) 0 ds"

definition unsign :: "string \<Rightarrow> bool \<times> string" where
  "unsign s =
     (case s of
        [] \<Rightarrow> (False, s)
      | c # r \<Rightarrow> if c = CHR ''-'' then (True, r) else if c = CHR ''+'' then (False, r) else (False, s))"

definition starts :: "string \<Rightarrow> string \<Rightarrow> bool" where
  "starts w s = (map tolower (take (length w) s) = w)"

definition std_stoi :: "string \<Rightarrow> exception + int32" where
  "std_stoi str =
     (let (negative, s) = unsign (dropWhile isspace str);
          ds = takeWhile isdigit s;
          v = (if negative then - int (numeral_value 10 ds) else int (numeral_value 10 ds))
      in if ds = [] then Inl invalid_argument
         else if v < - (2 ^ 31) \<or> 2 ^ 31 \<le> v then Inl out_of_range
         else Inr (word_of_int v))"

definition ipow :: "real \<Rightarrow> int \<Rightarrow> real" where
  "ipow b e = (if 0 \<le> e then b ^ nat e else 1 / b ^ nat (- e))"

text \<open>
  The exponent part \<open>e\<close> or \<open>p\<close>, an optional sign and decimal digits; without a digit
  the letter is not part of the number.
\<close>

definition exponent_part :: "char \<Rightarrow> string \<Rightarrow> int" where
  "exponent_part letter s =
     (if s \<noteq> [] \<and> tolower (hd s) = letter then
        let (negative, r) = unsign (tl s); ds = takeWhile isdigit r
        in if negative then - int (numeral_value 10 ds) else int (numeral_value 10 ds)
      else 0)"

text \<open>
  Digits, an optional point and more digits, and an exponent: the number read, or
  \<open>None\<close> when there is no digit at all.
\<close>

definition mantissa :: "nat \<Rightarrow> int \<Rightarrow> char \<Rightarrow> string \<Rightarrow> real option" where
  "mantissa base per_digit letter s =
     (let ip = takeWhile (if base = 16 then isxdigit else isdigit) s;
          r = drop (length ip) s;
          fp = (if r \<noteq> [] \<and> hd r = CHR ''.''
                then takeWhile (if base = 16 then isxdigit else isdigit) (tl r) else []);
          r' = (if r \<noteq> [] \<and> hd r = CHR ''.'' then drop (length fp) (tl r) else r)
      in if ip = [] \<and> fp = [] then None
         else Some (of_nat (numeral_value base (ip @ fp)) *
                    ipow (if base = 16 then 2 else 10)
                      (exponent_part letter r' - per_digit * int (length fp))))"

text \<open>
  A range error is an overflow to infinity, or a nonzero number whose rounded value is
  below the normal range and not exact.
\<close>

definition stof_number :: "bool \<Rightarrow> real \<Rightarrow> exception + float" where
  "stof_number negative q =
     (let x = f32_round negative q
      in if isinf x \<or> (f32_magnitude x < pow2 (- 126) \<and> f32_magnitude x \<noteq> q)
         then Inl out_of_range else Inr x)"

definition std_stof :: "string \<Rightarrow> exception + float" where
  "std_stof str =
     (let (negative, s) = unsign (dropWhile isspace str)
      in if starts ''inf'' s then Inr (f32_signbit negative OR f32_pinf)
         else if starts ''nan'' s then Inr (f32_signbit negative OR f32_qnan)
         else
           case (if starts ''0x'' s then mantissa 16 4 CHR ''p'' (drop 2 s) else None) of
             Some q \<Rightarrow> stof_number negative q
           | None \<Rightarrow>
               (case mantissa 10 1 CHR ''e'' s of
                  Some q \<Rightarrow> stof_number negative q
                | None \<Rightarrow> Inl invalid_argument))"

section \<open>Evaluation lemmas\<close>

lemma binade_numeral:
  "binade q (numeral k) =
     (if pow2 (int (pred_numeral k) - 125) \<le> q then int (pred_numeral k) - 125
      else binade q (pred_numeral k))"
  by (simp add: numeral_eq_Suc)

lemmas f32_round_eval =
  f32_literal_def f32_round_def f32_signbit_def binade_numeral pow2_def Let_def

lemmas f32_field_eval =
  f32_value_def f32_magnitude_def f32_sign_def f32_exponent_def f32_fraction_def
  isnan_def isinf_def

lemmas f32_op_eval =
  f32_add_def f32_sub_def f32_mul_def f32_div_def f32_neg_def f32_pinf_def f32_qnan_def

lemmas cmp_defs = f32_gt_def f32_lt_def f32_le_def f32_eq_def

lemmas parse_eval =
  std_stoi_def std_stof_def stof_number_def mantissa_def exponent_part_def ipow_def
  starts_def unsign_def numeral_value_def digit_def tolower_def isxdigit_def isdigit_def
  isspace_def

lemmas main_eval = main_def proceed_def count_def subscript_def retCode_def

lemma literal_0: "f32_literal 0 = 0"
  by (simp add: f32_round_eval)

lemma literal_1: "f32_literal 1 = 0x3F800000"
  by (simp add: f32_round_eval)

lemma literal_099: "f32_literal (99 / 100) = 0x3F7D70A4"
  by (simp add: f32_round_eval)

lemma neg_1: "f32_neg 0x3F800000 = 0xBF800000"
  by (simp add: f32_neg_def)

lemma neg_099: "f32_neg 0x3F7D70A4 = 0xBF7D70A4"
  by (simp add: f32_neg_def)

lemma value_0: "f32_value 0 = 0" "f32_magnitude 0 = 0" "\<not> isnan 0" "\<not> isinf 0" "\<not> f32_sign 0"
  by (simp_all add: f32_field_eval)

lemma value_m0:
  "f32_value 0x80000000 = 0" "\<not> isnan 0x80000000" "\<not> isinf 0x80000000" "f32_sign 0x80000000"
  by (simp_all add: f32_field_eval)

lemma value_1: "f32_value 0x3F800000 = 1" "\<not> isnan 0x3F800000"
  by (simp_all add: f32_field_eval pow2_def)

lemma value_m1: "f32_value 0xBF800000 = - 1" "\<not> isnan 0xBF800000"
  by (simp_all add: f32_field_eval pow2_def)

lemma value_099: "f32_value 0x3F7D70A4 = 4152361 / 4194304" "\<not> isnan 0x3F7D70A4"
  by (simp_all add: f32_field_eval pow2_def)

lemma value_m099: "f32_value 0xBF7D70A4 = - (4152361 / 4194304)" "\<not> isnan 0xBF7D70A4"
  by (simp_all add: f32_field_eval pow2_def)

lemmas consts_eval =
  literal_0 literal_1 literal_099 neg_1 neg_099 value_0 value_1 value_m1 value_099 value_m099

section \<open>Zero arithmetic\<close>

lemma pow2_pos: "0 < pow2 e"
  by (simp add: pow2_def)

lemma binade_zero: "binade 0 n = - 126"
  by (induction n) (simp_all add: not_le pow2_pos)

lemma round_zero: "f32_round s 0 = f32_signbit s"
  by (simp add: f32_round_def binade_zero)

lemma signbit_zero:
  "f32_value (f32_signbit s) = 0" "\<not> isnan (f32_signbit s)" "\<not> isinf (f32_signbit s)"
  "f32_sign (f32_signbit s) = s" "f32_neg (f32_signbit s) = f32_signbit (\<not> s)"
  by (simp_all add: f32_signbit_def value_0 value_m0 f32_neg_def)

lemma mul_zero_finite:
  "\<not> isnan h \<Longrightarrow> \<not> isinf h \<Longrightarrow> f32_mul 0 h = f32_signbit (f32_sign h)"
  by (simp add: f32_mul_def Let_def value_0 round_zero)

lemma add_zero_zero: "f32_add 0 (f32_signbit s) = 0"
  by (simp add: f32_add_def value_0 signbit_zero) (simp add: f32_signbit_def)

lemma sub_zero_zero: "f32_sub 0 (f32_signbit s) = 0"
  using add_zero_zero [of "\<not> s"] by (simp add: f32_sub_def signbit_zero)

lemma div_zero_nonzero:
  "\<not> isnan m \<Longrightarrow> f32_value m \<noteq> 0 \<Longrightarrow> f32_div 0 m = f32_signbit (f32_sign m)"
  by (simp add: f32_div_def Let_def value_0 round_zero)

section \<open>The emitter on an active tick\<close>

lemma sent_active:
  "vars.state s \<noteq> 1 \<Longrightarrow>
   map senderStamp (sent (atFrequency c now s)) = [senderStampLeft c, senderStampRight c] \<and>
   map sampleTimeStamp (sent (atFrequency c now s)) = [now, now] \<and>
   returned (atFrequency c now s)"
  by (simp add: atFrequency_def Let_def)

lemma positions_active:
  "vars.state s \<noteq> 1 \<Longrightarrow>
   positions (atFrequency c now s) =
     [spec_saturate (f32_sub (vxRequest s) (f32_mul (yawRateRequest s) (trackWidth c))) (speedMax c),
      spec_saturate (f32_add (vxRequest s) (f32_mul (yawRateRequest s) (trackWidth c))) (speedMax c)]"
  by (simp add: atFrequency_def positions_def spec_saturate_def Let_def cmp_defs consts_eval)

lemma printed_active:
  "vars.state s \<noteq> 1 \<Longrightarrow> verbose c \<Longrightarrow>
   printed (atFrequency c now s) =
     [SendingPedalRequests
        (spec_saturate (f32_sub (vxRequest s) (f32_mul (yawRateRequest s) (trackWidth c))) (speedMax c))
        (spec_saturate (f32_add (vxRequest s) (f32_mul (yawRateRequest s) (trackWidth c))) (speedMax c))
        (f32_sub (vxRequest s) (f32_mul (yawRateRequest s) (trackWidth c)))
        (f32_add (vxRequest s) (f32_mul (yawRateRequest s) (trackWidth c)))
        (speedMax c)]"
  by (simp add: atFrequency_def spec_saturate_def Let_def cmp_defs consts_eval)

lemma saturate_cases:
  "(f32_le (f32_neg (f32_literal 1)) (f32_div x m) \<and> f32_le (f32_div x m) (f32_literal 1)
      \<longrightarrow> spec_saturate x m = f32_div x m) \<and>
   (f32_gt (f32_div x m) (f32_literal 1) \<longrightarrow> spec_saturate x m = f32_literal (99 / 100)) \<and>
   (f32_lt (f32_div x m) (f32_neg (f32_literal 1))
      \<longrightarrow> spec_saturate x m = f32_neg (f32_literal (99 / 100)))"
  by (simp add: spec_saturate_def Let_def cmp_defs consts_eval)

lemma saturate_range:
  "\<not> f32_gt (spec_saturate x m) (f32_literal 1) \<and>
   \<not> f32_lt (spec_saturate x m) (f32_neg (f32_literal 1)) \<and>
   (f32_eq (spec_saturate x m) (f32_literal 1) \<longrightarrow> f32_eq (f32_div x m) (f32_literal 1)) \<and>
   (f32_eq (spec_saturate x m) (f32_neg (f32_literal 1))
      \<longrightarrow> f32_eq (f32_div x m) (f32_neg (f32_literal 1)))"
  by (simp add: spec_saturate_def Let_def cmp_defs consts_eval)

lemma saturate_zero:
  "\<not> isnan m \<Longrightarrow> f32_value m \<noteq> 0 \<Longrightarrow> spec_saturate 0 m = f32_signbit (f32_sign m)"
  by (simp add: spec_saturate_def div_zero_nonzero cmp_defs consts_eval signbit_zero)

section \<open>What start-up can end in\<close>

lemma proceed_not_usage: "(\<And>v. continue v \<noteq> UsageExit) \<Longrightarrow> proceed r continue \<noteq> UsageExit"
  by (cases r) (simp_all add: proceed_def)

lemma main_usage_iff:
  "main stoi stof arguments = UsageExit \<longleftrightarrow>
     arguments ''cid'' = None \<or> arguments ''freq'' = None \<or>
     arguments ''speed-max'' = None \<or> arguments ''track-width'' = None"
proof (cases "arguments ''cid'' = None \<or> arguments ''freq'' = None \<or>
     arguments ''speed-max'' = None \<or> arguments ''track-width'' = None")
  case True
  then show ?thesis
    by (auto simp add: main_def count_def)
next
  case False
  then have present: "0 \<noteq> count arguments ''cid''" "0 \<noteq> count arguments ''freq''"
    "0 \<noteq> count arguments ''speed-max''" "0 \<noteq> count arguments ''track-width''"
    by (auto simp add: count_def)
  have "main stoi stof arguments \<noteq> UsageExit"
    unfolding main_def using present
    by (simp only: if_False simp_thms) (intro proceed_not_usage, simp)
  with False show ?thesis by simp
qed

lemma proceed_returned: "r = Inr v \<Longrightarrow> proceed r continue = continue v"
  by (simp add: proceed_def)

lemma proceed_uncaught:
  "proceed r continue = Uncaught e \<Longrightarrow> r = Inl e \<or> (\<exists>v. r = Inr v \<and> continue v = Uncaught e)"
  by (cases r) (simp_all add: proceed_def)

lemma main_serves:
  assumes "arguments ''cid'' \<noteq> None" "arguments ''freq'' \<noteq> None"
    "arguments ''speed-max'' \<noteq> None" "arguments ''track-width'' \<noteq> None"
    and "(if count arguments ''id-input'' \<noteq> 0
          then stoi (subscript arguments ''id-input'') else Inr 0) = Inr idInput"
    and "(if count arguments ''id-left'' \<noteq> 0
          then stoi (subscript arguments ''id-left'') else Inr 0) = Inr idLeft"
    and "(if count arguments ''id-right'' \<noteq> 0
          then stoi (subscript arguments ''id-right'') else Inr 1) = Inr idRight"
    and "stof (subscript arguments ''track-width'') = Inr width"
    and "stof (subscript arguments ''speed-max'') = Inr speed"
    and "stoi (subscript arguments ''cid'') = Inr cid"
    and "stoi (subscript arguments ''freq'') = Inr freq"
  shows "main stoi stof arguments =
     Served (ucast cid)
       \<lparr>senderStampInput = idInput, senderStampLeft = idLeft, senderStampRight = idRight,
        verbose = (count arguments ''verbose'' \<noteq> 0), trackWidth = width, speedMax = speed\<rparr>
       freq"
proof -
  have present: "0 \<noteq> count arguments ''cid''" "0 \<noteq> count arguments ''freq''"
    "0 \<noteq> count arguments ''speed-max''" "0 \<noteq> count arguments ''track-width''"
    using assms(1-4) by (auto simp add: count_def)
  show ?thesis
    unfolding main_def using present
    by (simp only: if_False simp_thms proceed_returned [OF assms(5)]
        proceed_returned [OF assms(6)] proceed_returned [OF assms(7)]
        proceed_returned [OF assms(8)] proceed_returned [OF assms(9)]
        proceed_returned [OF assms(10)] proceed_returned [OF assms(11)])
qed

lemma main_uncaught:
  assumes "main stoi stof arguments = Uncaught e"
  shows "(if count arguments ''id-input'' \<noteq> 0
          then stoi (subscript arguments ''id-input'') else Inr 0) = Inl e \<or>
         (if count arguments ''id-left'' \<noteq> 0
          then stoi (subscript arguments ''id-left'') else Inr 0) = Inl e \<or>
         (if count arguments ''id-right'' \<noteq> 0
          then stoi (subscript arguments ''id-right'') else Inr 1) = Inl e \<or>
         stof (subscript arguments ''track-width'') = Inl e \<or>
         stof (subscript arguments ''speed-max'') = Inl e \<or>
         stoi (subscript arguments ''cid'') = Inl e \<or>
         stoi (subscript arguments ''freq'') = Inl e"
proof -
  have "main stoi stof arguments \<noteq> UsageExit"
    using assms by simp
  then have present: "0 \<noteq> count arguments ''cid''" "0 \<noteq> count arguments ''freq''"
    "0 \<noteq> count arguments ''speed-max''" "0 \<noteq> count arguments ''track-width''"
    by (auto simp add: main_usage_iff count_def)
  from assms show ?thesis
    unfolding main_def using present
    apply (simp only: if_False simp_thms)
    apply (drule proceed_uncaught, erule disjE, simp, elim exE conjE)+
    apply simp
    done
qed

section \<open>Claims\<close>

text \<open>
  C1. On every tick that is not suppressed, the wheel speeds the emitter computes are
  those of the specification's kinematics transform, \<open>v - \<omega>\<cdot>h\<close> on the left and
  \<open>v + \<omega>\<cdot>h\<close> on the right, in single-precision arithmetic: they are the speeds the
  verbose line reports, and the two positions sent are their saturated quotients.
\<close>

theorem kinematics_transform:
  assumes "vars.state s \<noteq> 1"
    and "spec_transform (vxRequest s) (yawRateRequest s) (trackWidth c) = (leftSpeed, rightSpeed)"
  shows "leftSpeed = f32_sub (vxRequest s) (f32_mul (yawRateRequest s) (trackWidth c)) \<and>
         rightSpeed = f32_add (vxRequest s) (f32_mul (yawRateRequest s) (trackWidth c)) \<and>
         positions (atFrequency c now s) =
           [spec_saturate leftSpeed (speedMax c), spec_saturate rightSpeed (speedMax c)] \<and>
         (verbose c \<longrightarrow>
            printed (atFrequency c now s) =
              [SendingPedalRequests
                 (spec_saturate leftSpeed (speedMax c)) (spec_saturate rightSpeed (speedMax c))
                 leftSpeed rightSpeed (speedMax c)])"
  using assms by (auto simp add: spec_transform_def positions_active printed_active)

theorem kinematics_transform_witness:
  "vars.state \<lparr>vxRequest = f32_literal 1, yawRateRequest = f32_literal 1, state = 0\<rparr> \<noteq> 1 \<and>
   spec_transform (f32_literal 1) (f32_literal 1) (f32_literal (1 / 2)) =
     (f32_literal (1 / 2), f32_literal (3 / 2)) \<and>
   printed (atFrequency
      \<lparr>senderStampInput = 0, senderStampLeft = 0, senderStampRight = 1, verbose = True,
       trackWidth = f32_literal (1 / 2), speedMax = f32_literal 2\<rparr>
      \<lparr>seconds = 5, microseconds = 0\<rparr>
      \<lparr>vxRequest = f32_literal 1, yawRateRequest = f32_literal 1, state = 0\<rparr>) =
     [SendingPedalRequests (f32_literal (1 / 4)) (f32_literal (3 / 4))
        (f32_literal (1 / 2)) (f32_literal (3 / 2)) (f32_literal 2)]"
proof -
  let ?c = "\<lparr>senderStampInput = 0, senderStampLeft = 0, senderStampRight = 1, verbose = True,
       trackWidth = f32_literal (1 / 2), speedMax = f32_literal 2\<rparr>"
  let ?s = "\<lparr>vxRequest = f32_literal 1, yawRateRequest = f32_literal 1, state = 0\<rparr>"
  have active: "vars.state ?s \<noteq> 1" by simp
  have tr: "spec_transform (vxRequest ?s) (yawRateRequest ?s) (trackWidth ?c) =
     (f32_literal (1 / 2), f32_literal (3 / 2))"
    by (simp add: spec_transform_def f32_op_eval f32_field_eval f32_round_eval)
  have sl: "spec_saturate (f32_literal (1 / 2)) (f32_literal 2) = f32_literal (1 / 4)"
    by (simp add: spec_saturate_def cmp_defs f32_op_eval f32_field_eval f32_round_eval)
  have sr: "spec_saturate (f32_literal (3 / 2)) (f32_literal 2) = f32_literal (3 / 4)"
    by (simp add: spec_saturate_def cmp_defs f32_op_eval f32_field_eval f32_round_eval)
  show ?thesis
    using kinematics_transform [OF active tr, of "\<lparr>seconds = 5, microseconds = 0\<rparr>"] active tr
    by (simp add: sl sr)
qed

text \<open>
  C2. On every tick that is not suppressed, and for each side, with \<open>q\<close> the wheel
  speed divided by \<open>speedMax\<close>: the position sent is \<open>q\<close> itself when
  \<open>- 1.0 \<le> q \<le> 1.0\<close>, exactly \<open>0.99f\<close> when \<open>q > 1.0\<close>, and exactly \<open>- 0.99f\<close> when
  \<open>q < - 1.0\<close>.
\<close>

theorem saturation_boundary:
  assumes "vars.state s \<noteq> 1"
    and "x = f32_sub (vxRequest s) (f32_mul (yawRateRequest s) (trackWidth c)) \<and> i = 0 \<or>
         x = f32_add (vxRequest s) (f32_mul (yawRateRequest s) (trackWidth c)) \<and> i = 1"
    and "q = f32_div x (speedMax c)"
    and "p = positions (atFrequency c now s) ! i"
  shows "(f32_le (f32_neg (f32_literal 1)) q \<and> f32_le q (f32_literal 1) \<longrightarrow> p = q) \<and>
         (f32_gt q (f32_literal 1) \<longrightarrow> p = f32_literal (99 / 100)) \<and>
         (f32_lt q (f32_neg (f32_literal 1)) \<longrightarrow> p = f32_neg (f32_literal (99 / 100)))"
proof -
  from assms have "p = spec_saturate x (speedMax c)"
    by (auto simp add: positions_active)
  with saturate_cases [of x "speedMax c"] assms(3) show ?thesis
    by simp
qed

theorem saturation_boundary_witness:
  "f32_gt (f32_div (f32_sub (f32_literal 3) (f32_mul 0 (f32_literal (1 / 2)))) (f32_literal 2))
     (f32_literal 1) \<and>
   positions (atFrequency
      \<lparr>senderStampInput = 0, senderStampLeft = 0, senderStampRight = 1, verbose = False,
       trackWidth = f32_literal (1 / 2), speedMax = f32_literal 2\<rparr>
      \<lparr>seconds = 5, microseconds = 0\<rparr>
      \<lparr>vxRequest = f32_literal 3, yawRateRequest = 0, state = 0\<rparr>) ! 0 =
     f32_literal (99 / 100)"
proof -
  let ?c = "\<lparr>senderStampInput = 0, senderStampLeft = 0, senderStampRight = 1, verbose = False,
       trackWidth = f32_literal (1 / 2), speedMax = f32_literal 2\<rparr>"
  let ?s = "\<lparr>vxRequest = f32_literal 3, yawRateRequest = 0, state = 0\<rparr>"
  let ?now = "\<lparr>seconds = 5, microseconds = 0\<rparr>"
  let ?x = "f32_sub (vxRequest ?s) (f32_mul (yawRateRequest ?s) (trackWidth ?c))"
  have active: "vars.state ?s \<noteq> 1" by simp
  have q: "f32_div ?x (speedMax ?c) = f32_literal (3 / 2)"
    by (simp add: f32_op_eval f32_field_eval f32_round_eval)
  have gt: "f32_gt (f32_literal (3 / 2)) (f32_literal 1)"
    by (simp add: cmp_defs f32_field_eval f32_round_eval)
  from saturation_boundary [OF active, of ?x ?c 0 "f32_div ?x (speedMax ?c)"
      "positions (atFrequency ?c ?now ?s) ! 0" ?now]
  have "f32_gt (f32_div ?x (speedMax ?c)) (f32_literal 1) \<longrightarrow>
        positions (atFrequency ?c ?now ?s) ! 0 = f32_literal (99 / 100)"
    by simp
  with q gt show ?thesis by simp
qed

text \<open>
  C3, as amended. On every tick that is not suppressed, each position sent is neither
  greater than \<open>1.0\<close> nor less than \<open>- 1.0\<close>, and it equals \<open>1.0\<close> (or \<open>- 1.0\<close>) only when
  the wheel speed divided by \<open>speedMax\<close> is exactly \<open>1.0\<close> (or \<open>- 1.0\<close>): such a quotient
  passes through unchanged.
\<close>

theorem position_within_unit_interval:
  assumes "vars.state s \<noteq> 1"
    and "x = f32_sub (vxRequest s) (f32_mul (yawRateRequest s) (trackWidth c)) \<and> i = 0 \<or>
         x = f32_add (vxRequest s) (f32_mul (yawRateRequest s) (trackWidth c)) \<and> i = 1"
    and "p = positions (atFrequency c now s) ! i"
  shows "\<not> f32_gt p (f32_literal 1) \<and> \<not> f32_lt p (f32_neg (f32_literal 1)) \<and>
         (f32_eq p (f32_literal 1) \<longrightarrow> f32_eq (f32_div x (speedMax c)) (f32_literal 1)) \<and>
         (f32_eq p (f32_neg (f32_literal 1)) \<longrightarrow>
            f32_eq (f32_div x (speedMax c)) (f32_neg (f32_literal 1)))"
proof -
  from assms have "p = spec_saturate x (speedMax c)"
    by (auto simp add: positions_active)
  with saturate_range [of x "speedMax c"] show ?thesis
    by simp
qed

theorem position_within_unit_interval_witness:
  "vars.state \<lparr>vxRequest = f32_literal 2, yawRateRequest = 0, state = 0\<rparr> \<noteq> 1 \<and>
   f32_eq (positions (atFrequency
      \<lparr>senderStampInput = 0, senderStampLeft = 0, senderStampRight = 1, verbose = False,
       trackWidth = f32_literal (1 / 2), speedMax = f32_literal 2\<rparr>
      \<lparr>seconds = 5, microseconds = 0\<rparr>
      \<lparr>vxRequest = f32_literal 2, yawRateRequest = 0, state = 0\<rparr>) ! 1) (f32_literal 1) \<and>
   f32_eq (f32_div (f32_add (f32_literal 2) (f32_mul 0 (f32_literal (1 / 2)))) (f32_literal 2))
     (f32_literal 1) \<and>
   \<not> f32_gt (positions (atFrequency
      \<lparr>senderStampInput = 0, senderStampLeft = 0, senderStampRight = 1, verbose = False,
       trackWidth = f32_literal (1 / 2), speedMax = f32_literal 2\<rparr>
      \<lparr>seconds = 5, microseconds = 0\<rparr>
      \<lparr>vxRequest = f32_literal 2, yawRateRequest = 0, state = 0\<rparr>) ! 1) (f32_literal 1)"
proof -
  let ?c = "\<lparr>senderStampInput = 0, senderStampLeft = 0, senderStampRight = 1, verbose = False,
       trackWidth = f32_literal (1 / 2), speedMax = f32_literal 2\<rparr>"
  let ?s = "\<lparr>vxRequest = f32_literal 2, yawRateRequest = 0, state = 0\<rparr>"
  let ?now = "\<lparr>seconds = 5, microseconds = 0\<rparr>"
  let ?x = "f32_add (vxRequest ?s) (f32_mul (yawRateRequest ?s) (trackWidth ?c))"
  let ?p = "positions (atFrequency ?c ?now ?s) ! 1"
  have active: "vars.state ?s \<noteq> 1" by simp
  have side: "?x = f32_sub (vxRequest ?s) (f32_mul (yawRateRequest ?s) (trackWidth ?c)) \<and>
        (1 :: nat) = 0 \<or>
      ?x = f32_add (vxRequest ?s) (f32_mul (yawRateRequest ?s) (trackWidth ?c)) \<and> (1 :: nat) = 1"
    by simp
  have p: "?p = f32_literal 1"
    by (simp add: positions_def atFrequency_def cmp_defs f32_op_eval f32_field_eval
        f32_round_eval)
  have one: "f32_eq ?p (f32_literal 1)"
    unfolding p by (simp add: f32_eq_def consts_eval)
  note claim = position_within_unit_interval [OF active side refl, of ?now]
  from claim have "\<not> f32_gt ?p (f32_literal 1)"
    by (rule conjunct1)
  moreover from claim one have "f32_eq (f32_div ?x (speedMax ?c)) (f32_literal 1)"
    by blast
  ultimately show ?thesis
    using active one by simp
qed

text \<open>
  C3 as stated fails: with \<open>vx = 2.0\<close>, \<open>yawRate = 0.0\<close> and \<open>speedMax = 2.0\<close> both quotients
  are exactly \<open>1.0\<close>, which is not greater than \<open>1.0\<close>, and both positions sent are \<open>1.0\<close>.
\<close>

theorem position_can_equal_one:
  "positions (atFrequency
      \<lparr>senderStampInput = 0, senderStampLeft = 0, senderStampRight = 1, verbose = False,
       trackWidth = f32_literal (1 / 2), speedMax = f32_literal 2\<rparr>
      \<lparr>seconds = 5, microseconds = 0\<rparr>
      \<lparr>vxRequest = f32_literal 2, yawRateRequest = f32_literal 0, state = 0\<rparr>) =
     [f32_literal 1, f32_literal 1]"
  by (simp add: positions_def atFrequency_def cmp_defs f32_op_eval f32_field_eval f32_round_eval)

text \<open>
  C4. On a tick at which the stored state is 1, the emitter sends nothing, whatever the
  stored motion request is, and returns \<open>true\<close> to the time trigger.
\<close>

theorem gate_suppression:
  assumes "vars.state s = 1"
  shows "sent (atFrequency c now s) = [] \<and> returned (atFrequency c now s)"
  using assms by (simp add: atFrequency_def)

theorem gate_suppression_witness:
  "vars.state \<lparr>vxRequest = f32_literal 3, yawRateRequest = f32_literal 1, state = 1\<rparr> = 1 \<and>
   sent (atFrequency
      \<lparr>senderStampInput = 0, senderStampLeft = 0, senderStampRight = 1, verbose = True,
       trackWidth = f32_literal (1 / 2), speedMax = f32_literal 2\<rparr>
      \<lparr>seconds = 5, microseconds = 0\<rparr>
      \<lparr>vxRequest = f32_literal 3, yawRateRequest = f32_literal 1, state = 1\<rparr>) = []"
proof -
  let ?s = "\<lparr>vxRequest = f32_literal 3, yawRateRequest = f32_literal 1, state = 1\<rparr>"
  have gate: "vars.state ?s = 1" by simp
  from gate_suppression [OF gate] gate show ?thesis by simp
qed

text \<open>
  C5. On a tick at which the stored state is not 1, the emitter sends exactly two
  envelopes, the first with the left sender stamp and the second with the right one,
  both with the one time stamp read during the tick, and returns \<open>true\<close>.
\<close>

theorem gate_pass_through:
  assumes "vars.state s \<noteq> 1"
  shows "length (sent (atFrequency c now s)) = 2 \<and>
         map senderStamp (sent (atFrequency c now s)) = [senderStampLeft c, senderStampRight c] \<and>
         map sampleTimeStamp (sent (atFrequency c now s)) = [now, now] \<and>
         returned (atFrequency c now s)"
  using assms by (simp add: atFrequency_def Let_def)

theorem gate_pass_through_witness:
  "vars.state \<lparr>vxRequest = f32_literal 3, yawRateRequest = f32_literal 1, state = 0\<rparr> \<noteq> 1 \<and>
   map senderStamp (sent (atFrequency
      \<lparr>senderStampInput = 0, senderStampLeft = 7, senderStampRight = 8, verbose = False,
       trackWidth = f32_literal (1 / 2), speedMax = f32_literal 2\<rparr>
      \<lparr>seconds = 5, microseconds = 0\<rparr>
      \<lparr>vxRequest = f32_literal 3, yawRateRequest = f32_literal 1, state = 0\<rparr>)) = [7, 8]"
proof -
  let ?s = "\<lparr>vxRequest = f32_literal 3, yawRateRequest = f32_literal 1, state = 0\<rparr>"
  have active: "vars.state ?s \<noteq> 1" by simp
  from gate_pass_through [OF active] active show ?thesis by simp
qed

text \<open>
  C6, as amended. \<^verbatim>\<open>main\<close> prints the usage text and returns 1 exactly when one of
  \<^verbatim>\<open>cid\<close>, \<^verbatim>\<open>freq\<close>, \<^verbatim>\<open>speed-max\<close>, \<^verbatim>\<open>track-width\<close> is missing. A \<^verbatim>\<open>speed-max\<close> of zero
  is not checked: with the four parameters present and every conversion returning a
  value, a \<^verbatim>\<open>speed-max\<close> that converts to zero is served, with \<open>speedMax\<close> zero and
  \<^verbatim>\<open>retCode\<close> 0. The only other way \<^verbatim>\<open>main\<close> ends is an exception thrown by one of its
  conversions, which nothing catches.
\<close>

theorem usage_exit_only_for_missing_parameter:
  "(main stoi stof arguments = UsageExit \<longleftrightarrow>
      arguments ''cid'' = None \<or> arguments ''freq'' = None \<or>
      arguments ''speed-max'' = None \<or> arguments ''track-width'' = None) \<and>
   (arguments ''cid'' \<noteq> None \<and> arguments ''freq'' \<noteq> None \<and>
    arguments ''speed-max'' \<noteq> None \<and> arguments ''track-width'' \<noteq> None \<and>
    (if count arguments ''id-input'' \<noteq> 0
     then stoi (subscript arguments ''id-input'') else Inr 0) = Inr idInput \<and>
    (if count arguments ''id-left'' \<noteq> 0
     then stoi (subscript arguments ''id-left'') else Inr 0) = Inr idLeft \<and>
    (if count arguments ''id-right'' \<noteq> 0
     then stoi (subscript arguments ''id-right'') else Inr 1) = Inr idRight \<and>
    stof (subscript arguments ''track-width'') = Inr width \<and>
    stof (subscript arguments ''speed-max'') = Inr zero \<and> f32_eq zero (f32_literal 0) \<and>
    stoi (subscript arguments ''cid'') = Inr cid \<and>
    stoi (subscript arguments ''freq'') = Inr freq \<longrightarrow>
      main stoi stof arguments =
        Served (ucast cid)
          \<lparr>senderStampInput = idInput, senderStampLeft = idLeft, senderStampRight = idRight,
           verbose = (count arguments ''verbose'' \<noteq> 0), trackWidth = width,
           speedMax = zero\<rparr>
          freq \<and>
      retCode (main stoi stof arguments) = Some 0) \<and>
   (main stoi stof arguments = Uncaught e \<longrightarrow>
      (if count arguments ''id-input'' \<noteq> 0
       then stoi (subscript arguments ''id-input'') else Inr 0) = Inl e \<or>
      (if count arguments ''id-left'' \<noteq> 0
       then stoi (subscript arguments ''id-left'') else Inr 0) = Inl e \<or>
      (if count arguments ''id-right'' \<noteq> 0
       then stoi (subscript arguments ''id-right'') else Inr 1) = Inl e \<or>
      stof (subscript arguments ''track-width'') = Inl e \<or>
      stof (subscript arguments ''speed-max'') = Inl e \<or>
      stoi (subscript arguments ''cid'') = Inl e \<or>
      stoi (subscript arguments ''freq'') = Inl e)"
proof (intro conjI impI)
  show "main stoi stof arguments = UsageExit \<longleftrightarrow>
      arguments ''cid'' = None \<or> arguments ''freq'' = None \<or>
      arguments ''speed-max'' = None \<or> arguments ''track-width'' = None"
    by (rule main_usage_iff)
next
  assume h: "arguments ''cid'' \<noteq> None \<and> arguments ''freq'' \<noteq> None \<and>
    arguments ''speed-max'' \<noteq> None \<and> arguments ''track-width'' \<noteq> None \<and>
    (if count arguments ''id-input'' \<noteq> 0
     then stoi (subscript arguments ''id-input'') else Inr 0) = Inr idInput \<and>
    (if count arguments ''id-left'' \<noteq> 0
     then stoi (subscript arguments ''id-left'') else Inr 0) = Inr idLeft \<and>
    (if count arguments ''id-right'' \<noteq> 0
     then stoi (subscript arguments ''id-right'') else Inr 1) = Inr idRight \<and>
    stof (subscript arguments ''track-width'') = Inr width \<and>
    stof (subscript arguments ''speed-max'') = Inr zero \<and> f32_eq zero (f32_literal 0) \<and>
    stoi (subscript arguments ''cid'') = Inr cid \<and>
    stoi (subscript arguments ''freq'') = Inr freq"
  have served: "main stoi stof arguments =
        Served (ucast cid)
          \<lparr>senderStampInput = idInput, senderStampLeft = idLeft, senderStampRight = idRight,
           verbose = (count arguments ''verbose'' \<noteq> 0), trackWidth = width,
           speedMax = zero\<rparr>
          freq"
    by (rule main_serves) (use h in blast)+
  show "main stoi stof arguments =
        Served (ucast cid)
          \<lparr>senderStampInput = idInput, senderStampLeft = idLeft, senderStampRight = idRight,
           verbose = (count arguments ''verbose'' \<noteq> 0), trackWidth = width,
           speedMax = zero\<rparr>
          freq"
    by (rule served)
  show "retCode (main stoi stof arguments) = Some 0"
    by (simp add: served retCode_def)
next
  assume "main stoi stof arguments = Uncaught e"
  then show "(if count arguments ''id-input'' \<noteq> 0
       then stoi (subscript arguments ''id-input'') else Inr 0) = Inl e \<or>
      (if count arguments ''id-left'' \<noteq> 0
       then stoi (subscript arguments ''id-left'') else Inr 0) = Inl e \<or>
      (if count arguments ''id-right'' \<noteq> 0
       then stoi (subscript arguments ''id-right'') else Inr 1) = Inl e \<or>
      stof (subscript arguments ''track-width'') = Inl e \<or>
      stof (subscript arguments ''speed-max'') = Inl e \<or>
      stoi (subscript arguments ''cid'') = Inl e \<or>
      stoi (subscript arguments ''freq'') = Inl e"
    by (rule main_uncaught)
qed

theorem usage_exit_only_for_missing_parameter_witness:
  "std_stof ''0'' = Inr 0 \<and> f32_eq 0 (f32_literal 0) \<and>
   main std_stoi std_stof
      (map_of [(''cid'', ''111''), (''freq'', ''10''), (''speed-max'', ''0''),
               (''track-width'', ''1'')]) \<noteq> UsageExit \<and>
   main std_stoi std_stof
      (map_of [(''cid'', ''111''), (''freq'', ''10''), (''speed-max'', ''0''),
               (''track-width'', ''1'')]) =
     Served 111
       \<lparr>senderStampInput = 0, senderStampLeft = 0, senderStampRight = 1, verbose = False,
        trackWidth = f32_literal 1, speedMax = 0\<rparr> 10 \<and>
   retCode (main std_stoi std_stof
      (map_of [(''cid'', ''111''), (''freq'', ''10''), (''speed-max'', ''0''),
               (''track-width'', ''1'')])) = Some 0 \<and>
   main std_stoi std_stof
      (map_of [(''cid'', ''111''), (''freq'', ''10''), (''speed-max'', ''fast''),
               (''track-width'', ''1'')]) = Uncaught invalid_argument \<and>
   std_stof ''fast'' = Inl invalid_argument"
proof -
  let ?arguments = "map_of [(''cid'', ''111''), (''freq'', ''10''), (''speed-max'', ''0''),
           (''track-width'', ''1'')]"
  let ?thrown = "map_of [(''cid'', ''111''), (''freq'', ''10''), (''speed-max'', ''fast''),
           (''track-width'', ''1'')]"
  have z: "std_stof ''0'' = Inr 0"
    by (simp add: parse_eval f32_round_eval f32_field_eval)
  have w: "std_stof ''1'' = Inr (f32_literal 1)"
    by (simp add: parse_eval f32_round_eval f32_field_eval)
  have c: "std_stoi ''111'' = Inr 111"
    by (simp add: parse_eval)
  have f: "std_stoi ''10'' = Inr 10"
    by (simp add: parse_eval)
  have e: "f32_eq 0 (f32_literal 0)"
    by (simp add: f32_eq_def consts_eval)
  note claim = usage_exit_only_for_missing_parameter [of std_stoi std_stof ?arguments
      0 0 1 "f32_literal 1" 0 111 10]
  have a: "main std_stoi std_stof ?arguments \<noteq> UsageExit"
    using claim [THEN conjunct1] by simp
  have given: "?arguments ''cid'' \<noteq> None \<and> ?arguments ''freq'' \<noteq> None \<and>
    ?arguments ''speed-max'' \<noteq> None \<and> ?arguments ''track-width'' \<noteq> None \<and>
    (if count ?arguments ''id-input'' \<noteq> 0
     then std_stoi (subscript ?arguments ''id-input'') else Inr 0) = Inr 0 \<and>
    (if count ?arguments ''id-left'' \<noteq> 0
     then std_stoi (subscript ?arguments ''id-left'') else Inr 0) = Inr 0 \<and>
    (if count ?arguments ''id-right'' \<noteq> 0
     then std_stoi (subscript ?arguments ''id-right'') else Inr 1) = Inr 1 \<and>
    std_stof (subscript ?arguments ''track-width'') = Inr (f32_literal 1) \<and>
    std_stof (subscript ?arguments ''speed-max'') = Inr 0 \<and> f32_eq 0 (f32_literal 0) \<and>
    std_stoi (subscript ?arguments ''cid'') = Inr 111 \<and>
    std_stoi (subscript ?arguments ''freq'') = Inr 10"
    by (simp add: count_def subscript_def z w c f e)
  have b: "main std_stoi std_stof ?arguments =
        Served (ucast (111 :: int32))
          \<lparr>senderStampInput = 0, senderStampLeft = 0, senderStampRight = 1,
           verbose = (count ?arguments ''verbose'' \<noteq> 0), trackWidth = f32_literal 1,
           speedMax = 0\<rparr>
          10 \<and>
      retCode (main std_stoi std_stof ?arguments) = Some 0"
    using claim [THEN conjunct2, THEN conjunct1] given by (rule mp)
  have thrown: "main std_stoi std_stof ?thrown = Uncaught invalid_argument"
    by (simp add: main_eval parse_eval f32_round_eval f32_field_eval)
  have "(if count ?thrown ''id-input'' \<noteq> 0
       then std_stoi (subscript ?thrown ''id-input'') else Inr 0) = Inl invalid_argument \<or>
      (if count ?thrown ''id-left'' \<noteq> 0
       then std_stoi (subscript ?thrown ''id-left'') else Inr 0) = Inl invalid_argument \<or>
      (if count ?thrown ''id-right'' \<noteq> 0
       then std_stoi (subscript ?thrown ''id-right'') else Inr 1) = Inl invalid_argument \<or>
      std_stof (subscript ?thrown ''track-width'') = Inl invalid_argument \<or>
      std_stof (subscript ?thrown ''speed-max'') = Inl invalid_argument \<or>
      std_stoi (subscript ?thrown ''cid'') = Inl invalid_argument \<or>
      std_stoi (subscript ?thrown ''freq'') = Inl invalid_argument"
    using usage_exit_only_for_missing_parameter [of std_stoi std_stof ?thrown
        0 0 1 "f32_literal 1" 0 111 10 invalid_argument, THEN conjunct2, THEN conjunct2] thrown
    by (rule mp)
  then have t: "std_stof ''fast'' = Inl invalid_argument"
    by (simp add: count_def subscript_def w c f)
  from b have b': "main std_stoi std_stof ?arguments =
     Served 111
       \<lparr>senderStampInput = 0, senderStampLeft = 0, senderStampRight = 1, verbose = False,
        trackWidth = f32_literal 1, speedMax = 0\<rparr> 10 \<and>
     retCode (main std_stoi std_stof ?arguments) = Some 0"
    by (simp add: count_def retCode_def)
  from z e a b' thrown t show ?thesis
    by (intro conjI) (simp_all add: retCode_def)
qed

text \<open>
  C6 as stated fails: \<^verbatim>\<open>--cid=111 --freq=10 --speed-max=0 --track-width=1\<close> is served,
  with \<open>speedMax\<close> zero and \<^verbatim>\<open>retCode\<close> 0; no usage text, no exit status other than 0.
\<close>

theorem zero_speed_max_is_served:
  "main std_stoi std_stof
      (map_of [(''cid'', ''111''), (''freq'', ''10''), (''speed-max'', ''0''),
               (''track-width'', ''1'')]) =
     Served 111
       \<lparr>senderStampInput = 0, senderStampLeft = 0, senderStampRight = 1, verbose = False,
        trackWidth = f32_literal 1, speedMax = f32_literal 0\<rparr> 10 \<and>
   retCode (main std_stoi std_stof
      (map_of [(''cid'', ''111''), (''freq'', ''10''), (''speed-max'', ''0''),
               (''track-width'', ''1'')])) = Some 0"
  by (simp add: main_eval parse_eval f32_round_eval f32_field_eval)

text \<open>
  C7. A motion envelope whose sender stamp differs from \<open>senderStampInput\<close> leaves the
  stored requests, and every other variable, as they were, and prints nothing.
\<close>

theorem source_filtering:
  assumes "senderStamp envelope \<noteq> senderStampInput c"
  shows "onGroundMotionRequest c envelope s = (s, [])"
  using assms by (simp add: onGroundMotionRequest_def)

theorem source_filtering_witness:
  "senderStamp \<lparr>sampleTimeStamp = \<lparr>seconds = 1, microseconds = 0\<rparr>, senderStamp = 4,
      message = \<lparr>vx = f32_literal 1, yawRate = f32_literal 2\<rparr>\<rparr> \<noteq>
   senderStampInput \<lparr>senderStampInput = 0, senderStampLeft = 0, senderStampRight = 1,
      verbose = True, trackWidth = f32_literal (1 / 2), speedMax = f32_literal 2\<rparr> \<and>
   fst (onGroundMotionRequest
      \<lparr>senderStampInput = 0, senderStampLeft = 0, senderStampRight = 1,
       verbose = True, trackWidth = f32_literal (1 / 2), speedMax = f32_literal 2\<rparr>
      \<lparr>sampleTimeStamp = \<lparr>seconds = 1, microseconds = 0\<rparr>, senderStamp = 4,
       message = \<lparr>vx = f32_literal 1, yawRate = f32_literal 2\<rparr>\<rparr>
      (initial_vars 0)) = initial_vars 0"
proof -
  let ?c = "\<lparr>senderStampInput = 0, senderStampLeft = 0, senderStampRight = 1,
       verbose = True, trackWidth = f32_literal (1 / 2), speedMax = f32_literal 2\<rparr>"
  let ?e = "\<lparr>sampleTimeStamp = \<lparr>seconds = 1, microseconds = 0\<rparr>, senderStamp = 4,
       message = \<lparr>vx = f32_literal 1, yawRate = f32_literal 2\<rparr>\<rparr>"
  have other: "senderStamp ?e \<noteq> senderStampInput ?c" by simp
  from source_filtering [OF other] other show ?thesis by simp
qed

text \<open>
  C8. The state handler stores the state of an envelope exactly when the envelope's
  sender stamp is 99: then \<open>state\<close> becomes the message's state and the requests stay;
  with any other sender stamp no variable changes.
\<close>

theorem state_handler_filter:
  "(senderStamp envelope = 99 \<longrightarrow>
      fst (onSwitchStateRequest c envelope s) =
        s\<lparr>state := SwitchStateRequest.state (message envelope)\<rparr>) \<and>
   (senderStamp envelope \<noteq> 99 \<longrightarrow> fst (onSwitchStateRequest c envelope s) = s)"
  by (simp add: onSwitchStateRequest_def extractMessage_def Let_def)

theorem state_handler_filter_witness:
  "vars.state (fst (onSwitchStateRequest
      \<lparr>senderStampInput = 0, senderStampLeft = 0, senderStampRight = 1,
       verbose = False, trackWidth = f32_literal (1 / 2), speedMax = f32_literal 2\<rparr>
      \<lparr>sampleTimeStamp = \<lparr>seconds = 1, microseconds = 0\<rparr>, senderStamp = 99,
       message = \<lparr>SwitchStateRequest.state = 1\<rparr>\<rparr>
      (initial_vars 0))) = 1 \<and>
   fst (onSwitchStateRequest
      \<lparr>senderStampInput = 0, senderStampLeft = 0, senderStampRight = 1,
       verbose = False, trackWidth = f32_literal (1 / 2), speedMax = f32_literal 2\<rparr>
      \<lparr>sampleTimeStamp = \<lparr>seconds = 1, microseconds = 0\<rparr>, senderStamp = 98,
       message = \<lparr>SwitchStateRequest.state = 1\<rparr>\<rparr>
      (initial_vars 0)) = initial_vars 0"
proof -
  let ?c = "\<lparr>senderStampInput = 0, senderStampLeft = 0, senderStampRight = 1,
       verbose = False, trackWidth = f32_literal (1 / 2), speedMax = f32_literal 2\<rparr>"
  let ?e = "\<lambda>stamp. \<lparr>sampleTimeStamp = \<lparr>seconds = 1, microseconds = 0\<rparr>, senderStamp = stamp,
       message = \<lparr>SwitchStateRequest.state = 1\<rparr>\<rparr>"
  from state_handler_filter [of "?e 99" ?c "initial_vars 0"]
    state_handler_filter [of "?e 98" ?c "initial_vars 0"]
  show ?thesis by simp
qed

text \<open>
  C9. After two motion envelopes with the configured sender stamp, the variables hold
  the second envelope's \<open>vx\<close> and \<open>yawRate\<close> and are what the second envelope alone
  would have left, so the next tick is the tick after the second envelope alone.
\<close>

theorem overwrite_semantics:
  assumes "senderStamp first = senderStampInput c"
    and "senderStamp second = senderStampInput c"
    and "s2 = fst (onGroundMotionRequest c second (fst (onGroundMotionRequest c first s)))"
  shows "vxRequest s2 = vx (message second) \<and>
         yawRateRequest s2 = yawRate (message second) \<and>
         s2 = fst (onGroundMotionRequest c second s) \<and>
         atFrequency c now s2 = atFrequency c now (fst (onGroundMotionRequest c second s))"
  using assms by (simp add: onGroundMotionRequest_def extractMessage_def Let_def)

theorem overwrite_semantics_witness:
  "vxRequest (fst (onGroundMotionRequest
      \<lparr>senderStampInput = 0, senderStampLeft = 0, senderStampRight = 1,
       verbose = False, trackWidth = f32_literal (1 / 2), speedMax = f32_literal 2\<rparr>
      \<lparr>sampleTimeStamp = \<lparr>seconds = 2, microseconds = 0\<rparr>, senderStamp = 0,
       message = \<lparr>vx = f32_literal 2, yawRate = f32_literal 0\<rparr>\<rparr>
      (fst (onGroundMotionRequest
        \<lparr>senderStampInput = 0, senderStampLeft = 0, senderStampRight = 1,
         verbose = False, trackWidth = f32_literal (1 / 2), speedMax = f32_literal 2\<rparr>
        \<lparr>sampleTimeStamp = \<lparr>seconds = 1, microseconds = 0\<rparr>, senderStamp = 0,
         message = \<lparr>vx = f32_literal 1, yawRate = f32_literal 0\<rparr>\<rparr>
        (initial_vars 0))))) = f32_literal 2"
proof -
  let ?c = "\<lparr>senderStampInput = 0, senderStampLeft = 0, senderStampRight = 1,
       verbose = False, trackWidth = f32_literal (1 / 2), speedMax = f32_literal 2\<rparr>"
  let ?e1 = "\<lparr>sampleTimeStamp = \<lparr>seconds = 1, microseconds = 0\<rparr>, senderStamp = 0,
         message = \<lparr>vx = f32_literal 1, yawRate = f32_literal 0\<rparr>\<rparr>"
  let ?e2 = "\<lparr>sampleTimeStamp = \<lparr>seconds = 2, microseconds = 0\<rparr>, senderStamp = 0,
       message = \<lparr>vx = f32_literal 2, yawRate = f32_literal 0\<rparr>\<rparr>"
  have m1: "senderStamp ?e1 = senderStampInput ?c" by simp
  have m2: "senderStamp ?e2 = senderStampInput ?c" by simp
  have "vxRequest (fst (onGroundMotionRequest ?c ?e2
           (fst (onGroundMotionRequest ?c ?e1 (initial_vars 0))))) = vx (message ?e2)"
    using overwrite_semantics [OF m1 m2 refl, of "initial_vars 0"
        "\<lparr>seconds = 5, microseconds = 0\<rparr>"]
    by (rule conjunct1)
  then show ?thesis by simp
qed

text \<open>
  C10, as amended. Before any motion envelope has arrived both requests are \<open>0.0\<close>;
  hence, when the track width is finite and \<open>speedMax\<close> is a number other than zero, a
  tick that is not suppressed sends a zero position on both sides (\<open>+ 0.0\<close> for a positive
  \<open>speedMax\<close>, \<open>- 0.0\<close> for a negative one; both compare equal to \<open>0.0\<close>).
\<close>

theorem initial_tick_sends_zero:
  assumes "indeterminate \<noteq> 1"
    and "\<not> isnan (trackWidth c)" and "\<not> isinf (trackWidth c)"
    and "\<not> isnan (speedMax c)" and "\<not> f32_eq (speedMax c) (f32_literal 0)"
    and "z = f32_signbit (f32_sign (speedMax c))"
  shows "vxRequest (initial_vars indeterminate) = f32_literal 0 \<and>
         yawRateRequest (initial_vars indeterminate) = f32_literal 0 \<and>
         positions (atFrequency c now (initial_vars indeterminate)) = [z, z] \<and>
         f32_eq z (f32_literal 0)"
proof -
  from assms(4,5) have nonzero: "f32_value (speedMax c) \<noteq> 0"
    by (simp add: f32_eq_def consts_eval)
  have act: "vars.state (initial_vars indeterminate) \<noteq> 1"
    using assms(1) by (simp add: initial_vars_def)
  have left: "f32_sub (f32_literal 0) (f32_mul (f32_literal 0) (trackWidth c)) = 0"
    using assms(2,3) by (simp add: literal_0 mul_zero_finite sub_zero_zero)
  have right: "f32_add (f32_literal 0) (f32_mul (f32_literal 0) (trackWidth c)) = 0"
    using assms(2,3) by (simp add: literal_0 mul_zero_finite add_zero_zero)
  have "positions (atFrequency c now (initial_vars indeterminate)) =
          [spec_saturate 0 (speedMax c), spec_saturate 0 (speedMax c)]"
    using positions_active [OF act, of c now] left right by (simp add: initial_vars_def)
  with assms(4,6) nonzero show ?thesis
    by (simp add: saturate_zero initial_vars_def f32_eq_def signbit_zero consts_eval)
qed

theorem initial_tick_sends_zero_witness:
  "\<not> isnan (f32_literal (1 / 2)) \<and> \<not> isinf (f32_literal (1 / 2)) \<and>
   \<not> isnan (f32_literal 2) \<and> \<not> f32_eq (f32_literal 2) (f32_literal 0) \<and>
   positions (atFrequency
      \<lparr>senderStampInput = 0, senderStampLeft = 0, senderStampRight = 1, verbose = False,
       trackWidth = f32_literal (1 / 2), speedMax = f32_literal 2\<rparr>
      \<lparr>seconds = 5, microseconds = 0\<rparr>
      (initial_vars 0)) = [0, 0] \<and>
   f32_eq 0 (f32_literal 0)"
proof -
  let ?c = "\<lparr>senderStampInput = 0, senderStampLeft = 0, senderStampRight = 1, verbose = False,
       trackWidth = f32_literal (1 / 2), speedMax = f32_literal 2\<rparr>"
  have nz: "(0 :: int32) \<noteq> 1" by simp
  have w: "\<not> isnan (trackWidth ?c)" "\<not> isinf (trackWidth ?c)"
    by (simp_all add: f32_field_eval f32_round_eval)
  have m: "\<not> isnan (speedMax ?c)" "\<not> f32_eq (speedMax ?c) (f32_literal 0)"
    by (simp_all add: f32_eq_def f32_field_eval f32_round_eval)
  have z: "(0 :: float) = f32_signbit (f32_sign (speedMax ?c))"
    by (simp add: f32_field_eval f32_round_eval)
  from initial_tick_sends_zero [OF nz w m z, of "\<lparr>seconds = 5, microseconds = 0\<rparr>"] w m
  show ?thesis by simp
qed

text \<open>
  C10 as stated fails: \<^verbatim>\<open>--track-width=inf --speed-max=1\<close> is a command line that
  \<^verbatim>\<open>main\<close> accepts; then \<open>0.0 * inf\<close> is a NaN, both wheel speeds and both quotients are
  NaN, no comparison holds, and both positions sent are NaN instead of \<open>0.0\<close>.
\<close>

theorem infinite_track_width_sends_nan:
  "main std_stoi std_stof
      (map_of [(''cid'', ''111''), (''freq'', ''10''), (''speed-max'', ''1''),
               (''track-width'', ''inf'')]) =
     Served 111
       \<lparr>senderStampInput = 0, senderStampLeft = 0, senderStampRight = 1, verbose = False,
        trackWidth = f32_pinf, speedMax = f32_literal 1\<rparr> 10 \<and>
   \<not> f32_eq (f32_literal 1) (f32_literal 0) \<and>
   positions (atFrequency
      \<lparr>senderStampInput = 0, senderStampLeft = 0, senderStampRight = 1, verbose = False,
       trackWidth = f32_pinf, speedMax = f32_literal 1\<rparr>
      \<lparr>seconds = 5, microseconds = 0\<rparr>
      (initial_vars 0)) = [f32_qnan, f32_qnan] \<and>
   isnan f32_qnan \<and> \<not> f32_eq f32_qnan (f32_literal 0)"
proof -
  have "main std_stoi std_stof
      (map_of [(''cid'', ''111''), (''freq'', ''10''), (''speed-max'', ''1''),
               (''track-width'', ''inf'')]) =
     Served 111
       \<lparr>senderStampInput = 0, senderStampLeft = 0, senderStampRight = 1, verbose = False,
        trackWidth = f32_pinf, speedMax = f32_literal 1\<rparr> 10"
    by (simp add: main_eval parse_eval f32_round_eval f32_field_eval f32_pinf_def)
  moreover have "\<not> f32_eq (f32_literal 1) (f32_literal 0)"
    by (simp add: f32_eq_def consts_eval)
  moreover have "positions (atFrequency
      \<lparr>senderStampInput = 0, senderStampLeft = 0, senderStampRight = 1, verbose = False,
       trackWidth = f32_pinf, speedMax = f32_literal 1\<rparr>
      \<lparr>seconds = 5, microseconds = 0\<rparr>
      (initial_vars 0)) = [f32_qnan, f32_qnan]"
    by (simp add: positions_def atFrequency_def initial_vars_def cmp_defs f32_op_eval
        f32_field_eval f32_round_eval)
  moreover have "isnan f32_qnan"
    by (simp add: f32_qnan_def f32_field_eval)
  ultimately show ?thesis
    by (simp add: f32_eq_def)
qed

end
